theory Spec2Isabelle
  imports Complex_Main
begin

section \<open>JavaScript numbers\<close>

text \<open>
  The numbers of \<^verbatim>\<open>server.js\<close> are IEEE doubles. The three special values that the
  handlers can receive from \<^verbatim>\<open>parseFloat\<close> are kept apart; a finite double is idealised
  as the rational it denotes, so \<open>-\<close> on finite values is exact (the rounding of double
  arithmetic is not modelled, and \<open>-0\<close> is \<open>0\<close>).
\<close>

datatype jsnum = NaN | NegInf | Fin rat | PosInf

text \<open>\<^verbatim>\<open>a < b\<close>: false as soon as one side is NaN.\<close>

fun js_lt :: "jsnum \<Rightarrow> jsnum \<Rightarrow> bool" where
  "js_lt (Fin x) (Fin y) = (x < y)"
| "js_lt NegInf (Fin y) = True"
| "js_lt NegInf PosInf = True"
| "js_lt (Fin x) PosInf = True"
| "js_lt _ _ = False"

text \<open>\<^verbatim>\<open>a > b\<close>, \<^verbatim>\<open>a <= b\<close>, \<^verbatim>\<open>a === b\<close>, \<^verbatim>\<open>isNaN(a)\<close> and the truthiness of a number.\<close>

definition js_gt :: "jsnum \<Rightarrow> jsnum \<Rightarrow> bool" where
  "js_gt a b = js_lt b a"

definition js_le :: "jsnum \<Rightarrow> jsnum \<Rightarrow> bool" where
  "js_le a b = (a \<noteq> NaN \<and> b \<noteq> NaN \<and> \<not> js_lt b a)"

definition js_seq :: "jsnum \<Rightarrow> jsnum \<Rightarrow> bool" where
  "js_seq a b = (a \<noteq> NaN \<and> a = b)"

definition isNaN :: "jsnum \<Rightarrow> bool" where
  "isNaN a = (a = NaN)"

definition truthy :: "jsnum \<Rightarrow> bool" where
  "truthy a = (a \<noteq> NaN \<and> a \<noteq> Fin 0)"

text \<open>\<^verbatim>\<open>a - b\<close>.\<close>

fun js_sub :: "jsnum \<Rightarrow> jsnum \<Rightarrow> jsnum" where
  "js_sub NaN _ = NaN"
| "js_sub _ NaN = NaN"
| "js_sub (Fin x) (Fin y) = Fin (x - y)"
| "js_sub (Fin x) PosInf = NegInf"
| "js_sub (Fin x) NegInf = PosInf"
| "js_sub PosInf PosInf = NaN"
| "js_sub PosInf _ = PosInf"
| "js_sub NegInf NegInf = NaN"
| "js_sub NegInf _ = NegInf"

text \<open>
  \<^verbatim>\<open>parseFloat(x.toFixed(2))\<close>. \<^verbatim>\<open>toFixed\<close> prints NaN and the infinities by name, prints
  a value of magnitude \<open>10^21\<close> or more unrounded, and otherwise picks the integer \<open>n\<close> with
  \<open>n / 100\<close> nearest to the magnitude, the larger one on a tie, and restores the sign.
\<close>

definition hundredths :: "rat \<Rightarrow> rat" where
  "hundredths z = of_int \<lfloor>z * 100 + 1 / 2\<rfloor> / 100"

definition round2 :: "rat \<Rightarrow> rat" where
  "round2 x =
     (if 10 ^ 21 \<le> \<bar>x\<bar> then x
      else if x < 0 then - hundredths \<bar>x\<bar>
      else hundredths x)"

fun toFixed2 :: "jsnum \<Rightarrow> jsnum" where
  "toFixed2 (Fin x) = Fin (round2 x)"
| "toFixed2 v = v"

section \<open>Request fields\<close>

text \<open>
  A field of \<^verbatim>\<open>req.body\<close> is absent (\<^verbatim>\<open>undefined\<close>), or present with a falsy value
  (the empty string of a form, or \<^verbatim>\<open>0\<close>, \<^verbatim>\<open>null\<close>, \<^verbatim>\<open>false\<close> of a JSON body), or
  present with a truthy value. A present field carries what the parser the handler applies
  to it returns: \<^verbatim>\<open>parseFloat\<close> (a number), \<^verbatim>\<open>parseInt(_, 10)\<close> (an integer, \<open>None\<close> for
  NaN), \<^verbatim>\<open>new Date(_)\<close> (milliseconds since the epoch, \<open>None\<close> for an invalid date) or
  \<^verbatim>\<open>trim()\<close> (a string).
\<close>

datatype 'a field = Undefined | Falsy 'a | Truthy 'a

text \<open>\<^verbatim>\<open>parseFloat(f || 'd') || d\<close>, for the defaults \<open>d = 0\<close> and \<open>d = 1\<close> of the source.\<close>

definition parseFloat_or :: "jsnum field \<Rightarrow> jsnum \<Rightarrow> jsnum" where
  "parseFloat_or f d = (case f of Truthy v \<Rightarrow> (if truthy v then v else d) | _ \<Rightarrow> d)"

text \<open>\<^verbatim>\<open>parseInt(f, 10) || 60\<close>.\<close>

definition parseInt_or60 :: "int option field \<Rightarrow> int" where
  "parseInt_or60 f =
     (case f of
        Undefined \<Rightarrow> 60
      | Falsy p \<Rightarrow> (case p of None \<Rightarrow> 60 | Some n \<Rightarrow> if n = 0 then 60 else n)
      | Truthy p \<Rightarrow> (case p of None \<Rightarrow> 60 | Some n \<Rightarrow> if n = 0 then 60 else n))"

text \<open>\<^verbatim>\<open>(f || '').trim()\<close>.\<close>

definition trim_or_empty :: "string field \<Rightarrow> string" where
  "trim_or_empty f = (case f of Truthy t \<Rightarrow> t | _ \<Rightarrow> [])"

definition is_truthy :: "'a field \<Rightarrow> bool" where
  "is_truthy f = (case f of Truthy _ \<Rightarrow> True | _ \<Rightarrow> False)"

section \<open>Dates\<close>

text \<open>
  A time is its number of milliseconds since the epoch; the ISO strings the store keeps
  carry exactly that. \<^verbatim>\<open>new Date(t)\<close> is invalid outside \<open>\<plusminus> 8.64e15\<close>, and
  \<^verbatim>\<open>toISOString()\<close> on an invalid date throws a RangeError (\<open>None\<close>).
\<close>

definition newDate :: "int \<Rightarrow> int option" where
  "newDate t = (if \<bar>t\<bar> \<le> 8640000000000000 then Some t else None)"

definition utcISOFromLocal :: "int option field \<Rightarrow> int option" where
  "utcISOFromLocal f = (case f of Undefined \<Rightarrow> None | Falsy d \<Rightarrow> d | Truthy d \<Rightarrow> d)"

definition hasStarted :: "int \<Rightarrow> int \<Rightarrow> bool" where
  "hasStarted startsAt now = (startsAt \<le> now)"

definition hasEnded :: "int \<Rightarrow> int \<Rightarrow> bool" where
  "hasEnded endsAt now = (endsAt \<le> now)"

section \<open>The store\<close>

record bid =
  amount :: jsnum
  atISO :: int
  ip :: string

text \<open>\<open>maxIncrement = None\<close> is the \<^verbatim>\<open>undefined\<close> the source stores for "no max".\<close>

record auction =
  auction_id :: string
  slug :: string
  title :: string
  description :: string
  startsAt :: int
  endsAt :: int
  startingBid :: jsnum
  minIncrement :: jsnum
  maxIncrement :: "jsnum option"
  currentBid :: jsnum
  bids :: "bid list"

text \<open>
  \<^verbatim>\<open>DATA.auctions\<close>, in array order. A handler that mutates the object \<^verbatim>\<open>find\<close> returned
  changes the first element that satisfies the predicate. The store is the one in memory:
  \<^verbatim>\<open>saveData\<close> writes it to \<^verbatim>\<open>data.json\<close> after each change and nothing reads the file
  back while the server runs.
\<close>

fun modify_first :: "('a \<Rightarrow> bool) \<Rightarrow> ('a \<Rightarrow> 'a) \<Rightarrow> 'a list \<Rightarrow> 'a list" where
  "modify_first P f [] = []"
| "modify_first P f (x # xs) = (if P x then f x # xs else x # modify_first P f xs)"

section \<open>Responses\<close>

text \<open>
  The four refusals of the bid handler are its four messages: \<^verbatim>\<open>Auction has not started yet.\<close>,
  \<^verbatim>\<open>Auction has ended.\<close>, \<^verbatim>\<open>Bid must be greater than current bid.\<close> and
  \<^verbatim>\<open>Bid increment must be between ${minIncrement} and ${maxIncrement}.\<close>, the last with the two
  bounds it prints.
\<close>

datatype reason =
    NotStarted
  | Ended
  | TooLow
  | IncrementOutOfBounds jsnum "jsnum option"

text \<open>
  \<open>NotFound\<close> is a 404, \<open>Redirect\<close> the \<^verbatim>\<open>res.redirect('/admin')\<close> of a finished admin
  request, \<open>ServerError\<close> the 500 of an exception thrown inside a handler.
\<close>

datatype response =
    NotFound
  | BidRejected reason
  | BidOk jsnum
  | Redirect
  | ServerError

section \<open>Bidding\<close>

definition clampBidIncrement :: "jsnum \<Rightarrow> jsnum \<Rightarrow> jsnum option \<Rightarrow> jsnum" where
  "clampBidIncrement amt minInc maxInc =
     (case maxInc of
        Some m \<Rightarrow>
          if truthy m \<and> js_gt amt m then m
          else if js_lt amt minInc then minInc
          else amt
      | None \<Rightarrow> if js_lt amt minInc then minInc else amt)"

text \<open>
  The request of \<^verbatim>\<open>POST /:slug/bid\<close>: the slug of the path, \<^verbatim>\<open>parseFloat(req.body.amount)\<close>,
  \<^verbatim>\<open>req.ip\<close>, and the three readings of the clock the handler takes, in order: in
  \<^verbatim>\<open>hasStarted\<close>, in \<^verbatim>\<open>hasEnded\<close> and in \<^verbatim>\<open>nowISO\<close>.
\<close>

record bid_request =
  bq_slug :: string
  bq_amount :: jsnum
  bq_ip :: string
  bq_now1 :: int
  bq_now2 :: int
  bq_now3 :: int

definition accept_bid :: "bid_request \<Rightarrow> auction \<Rightarrow> auction" where
  "accept_bid rq a =
     a\<lparr>currentBid := toFixed2 (bq_amount rq),
       bids := bids a @ [\<lparr>amount = toFixed2 (bq_amount rq), atISO = bq_now3 rq, ip = bq_ip rq\<rparr>]\<rparr>"

definition placeBid :: "auction list \<Rightarrow> bid_request \<Rightarrow> response \<times> auction list" where
  "placeBid DATA rq =
     (case List.find (\<lambda>a. slug a = bq_slug rq) DATA of
        None \<Rightarrow> (NotFound, DATA)
      | Some a \<Rightarrow>
          let inc = js_sub (bq_amount rq) (currentBid a) in
          if \<not> hasStarted (startsAt a) (bq_now1 rq) then (BidRejected NotStarted, DATA)
          else if hasEnded (endsAt a) (bq_now2 rq) then (BidRejected Ended, DATA)
          else if isNaN (bq_amount rq) \<or> js_le (bq_amount rq) (currentBid a)
            then (BidRejected TooLow, DATA)
          else
            let incClamped = clampBidIncrement inc (minIncrement a) (maxIncrement a) in
            if \<not> js_seq inc incClamped
              then (BidRejected (IncrementOutOfBounds (minIncrement a) (maxIncrement a)), DATA)
            else (BidOk (toFixed2 (bq_amount rq)),
                  modify_first (\<lambda>a. slug a = bq_slug rq) (accept_bid rq) DATA))"

section \<open>Administration\<close>

text \<open>
  The admin handlers are modelled behind \<^verbatim>\<open>authRequired\<close>: a request without a session is
  redirected to the login page before it reaches them.

  The request of \<^verbatim>\<open>POST /admin/auction\<close>. \<open>c_slug\<close> is what
  \<^verbatim>\<open>slugify((slug || title || '').trim(), { lower: true, strict: true })\<close> returns (slugify is
  an npm package); \<open>c_rand1\<close>, \<open>c_rand2\<close> and \<open>c_rand3\<close> are the 16 hexadecimal digits
  \<^verbatim>\<open>generateId()\<close> returns at its three call sites, in source order.
\<close>

record create_request =
  c_title :: "string field"
  c_slug :: string
  c_description :: "string field"
  c_startsAtLocal :: "int option field"
  c_durationMinutes :: "int option field"
  c_startingBid :: "jsnum field"
  c_minIncrement :: "jsnum field"
  c_maxIncrement :: "jsnum field"
  c_rand1 :: string
  c_rand2 :: string
  c_rand3 :: string

definition createAuction :: "auction list \<Rightarrow> create_request \<Rightarrow> response \<times> auction list" where
  "createAuction DATA rq =
     (let sb = parseFloat_or (c_startingBid rq) (Fin 0);
          mi = parseFloat_or (c_minIncrement rq) (Fin 1);
          mx = parseFloat_or (c_maxIncrement rq) (Fin 0);
          sl = (if c_slug rq = [] then ''auction-'' @ c_rand1 rq else c_slug rq)
      in case utcISOFromLocal (c_startsAtLocal rq) of
           None \<Rightarrow> (ServerError, DATA)
         | Some st \<Rightarrow>
             (case newDate (st + parseInt_or60 (c_durationMinutes rq) * 60000) of
                None \<Rightarrow> (ServerError, DATA)
              | Some en \<Rightarrow>
                  let sl' = (if list_ex (\<lambda>a. slug a = sl) DATA
                             then sl @ ''-'' @ take 4 (c_rand2 rq) else sl)
                  in (Redirect,
                      DATA @ [\<lparr>auction_id = c_rand3 rq,
                               slug = sl',
                               title = trim_or_empty (c_title rq),
                               description = trim_or_empty (c_description rq),
                               startsAt = st,
                               endsAt = en,
                               startingBid = sb,
                               minIncrement = mi,
                               maxIncrement = (if js_gt mx (Fin 0) then Some mx else None),
                               currentBid = sb,
                               bids = []\<rparr>])))"

text \<open>The request of \<^verbatim>\<open>POST /admin/auction/:id/update\<close>.\<close>

record update_request =
  u_id :: string
  u_title :: "string field"
  u_description :: "string field"
  u_startsAtLocal :: "int option field"
  u_durationMinutes :: "int option field"
  u_startingBid :: "jsnum field"
  u_minIncrement :: "jsnum field"
  u_maxIncrement :: "jsnum field"

text \<open>The assignments of the update handler, in source order, on the auction it found.\<close>

definition patch_text :: "update_request \<Rightarrow> auction \<Rightarrow> auction" where
  "patch_text rq a =
     (let a1 = (case u_title rq of Truthy t \<Rightarrow> a\<lparr>title := t\<rparr> | _ \<Rightarrow> a)
      in case u_description rq of Truthy d \<Rightarrow> a1\<lparr>description := d\<rparr> | _ \<Rightarrow> a1)"

text \<open>\<open>None\<close> when \<^verbatim>\<open>toISOString\<close> throws; nothing of the window is assigned then.\<close>

definition patch_window :: "update_request \<Rightarrow> auction \<Rightarrow> auction option" where
  "patch_window rq a =
     (if is_truthy (u_startsAtLocal rq) \<and> is_truthy (u_durationMinutes rq) then
        (case utcISOFromLocal (u_startsAtLocal rq) of
           None \<Rightarrow> None
         | Some st \<Rightarrow>
             (case newDate (st + parseInt_or60 (u_durationMinutes rq) * 60000) of
                None \<Rightarrow> None
              | Some en \<Rightarrow> Some (a\<lparr>startsAt := st, endsAt := en\<rparr>)))
      else Some a)"

definition patch_startingBid :: "update_request \<Rightarrow> auction \<Rightarrow> auction" where
  "patch_startingBid rq a =
     (case u_startingBid rq of
        Truthy sb \<Rightarrow>
          if \<not> isNaN sb then
            (let a1 = a\<lparr>startingBid := sb\<rparr>
             in if length (bids a1) = 0 then a1\<lparr>currentBid := sb\<rparr> else a1)
          else a
      | _ \<Rightarrow> a)"

definition patch_increments :: "update_request \<Rightarrow> auction \<Rightarrow> auction" where
  "patch_increments rq a =
     (let a1 = (case u_minIncrement rq of
                  Truthy mi \<Rightarrow> if \<not> isNaN mi \<and> js_gt mi (Fin 0) then a\<lparr>minIncrement := mi\<rparr> else a
                | _ \<Rightarrow> a)
      in case u_maxIncrement rq of
           Undefined \<Rightarrow> a1
         | Falsy mx \<Rightarrow> a1\<lparr>maxIncrement := (if \<not> isNaN mx \<and> js_gt mx (Fin 0) then Some mx else None)\<rparr>
         | Truthy mx \<Rightarrow> a1\<lparr>maxIncrement := (if \<not> isNaN mx \<and> js_gt mx (Fin 0) then Some mx else None)\<rparr>)"

text \<open>
  The whole handler body on the found auction. When the window throws, the title and the
  description are already assigned in memory.
\<close>

definition patch_auction :: "update_request \<Rightarrow> auction \<Rightarrow> auction" where
  "patch_auction rq a =
     (case patch_window rq (patch_text rq a) of
        None \<Rightarrow> patch_text rq a
      | Some a2 \<Rightarrow> patch_increments rq (patch_startingBid rq a2))"

definition updateAuction :: "auction list \<Rightarrow> update_request \<Rightarrow> response \<times> auction list" where
  "updateAuction DATA rq =
     (case List.find (\<lambda>a. auction_id a = u_id rq) DATA of
        None \<Rightarrow> (NotFound, DATA)
      | Some a \<Rightarrow>
          (if patch_window rq (patch_text rq a) = None then ServerError else Redirect,
           modify_first (\<lambda>a. auction_id a = u_id rq) (patch_auction rq) DATA))"

text \<open>\<^verbatim>\<open>POST /admin/auction/:id/delete\<close>.\<close>

definition deleteAuction :: "auction list \<Rightarrow> string \<Rightarrow> response \<times> auction list" where
  "deleteAuction DATA i = (Redirect, filter (\<lambda>a. auction_id a \<noteq> i) DATA)"

section \<open>Sequences of operations\<close>

datatype operation =
    Create create_request
  | Bid bid_request
  | Update update_request
  | Delete string

fun step :: "auction list \<Rightarrow> operation \<Rightarrow> auction list" where
  "step DATA (Create rq) = snd (createAuction DATA rq)"
| "step DATA (Bid rq) = snd (placeBid DATA rq)"
| "step DATA (Update rq) = snd (updateAuction DATA rq)"
| "step DATA (Delete i) = snd (deleteAuction DATA i)"

text \<open>The store after a sequence of requests, from the empty \<^verbatim>\<open>initialData()\<close>.\<close>

definition run :: "operation list \<Rightarrow> auction list" where
  "run ops = foldl step [] ops"

section \<open>Invariants of the store\<close>

text \<open>A stored cap is absent or strictly positive.\<close>

definition max_ok :: "auction \<Rightarrow> bool" where
  "max_ok a = (case maxIncrement a of None \<Rightarrow> True | Some m \<Rightarrow> js_gt m (Fin 0))"

text \<open>
  No amount of an auction is NaN, and the current bid of an auction that has bids is a
  fixed point of the two-decimal rounding.
\<close>

definition numbers_ok :: "auction \<Rightarrow> bool" where
  "numbers_ok a =
     (startingBid a \<noteq> NaN \<and> currentBid a \<noteq> NaN \<and> minIncrement a \<noteq> NaN \<and>
      (bids a \<noteq> [] \<longrightarrow> toFixed2 (currentBid a) = currentBid a))"

text \<open>The current bid is the starting bid, or the amount of the last recorded bid.\<close>

definition ledger_ok :: "auction \<Rightarrow> bool" where
  "ledger_ok a =
     (if bids a = [] then currentBid a = startingBid a
      else currentBid a = amount (last (bids a)))"

section \<open>Example requests\<close>

text \<open>
  An auction for a lamp: it starts at \<open>1000000\<close> ms and runs for the given number of
  minutes, with the given starting bid and increments.
\<close>

definition lamp_create ::
  "int \<Rightarrow> jsnum field \<Rightarrow> jsnum field \<Rightarrow> jsnum field \<Rightarrow> string \<Rightarrow> string \<Rightarrow> create_request" where
  "lamp_create minutes sb mi mx r2 r3 =
     \<lparr>c_title = Truthy ''Lamp'', c_slug = ''lamp'', c_description = Truthy ''Brass desk lamp'',
      c_startsAtLocal = Truthy (Some 1000000), c_durationMinutes = Truthy (Some minutes),
      c_startingBid = sb, c_minIncrement = mi, c_maxIncrement = mx,
      c_rand1 = ''0f0e0d0c0b0a0908'', c_rand2 = r2, c_rand3 = r3\<rparr>"

text \<open>The auction of the scenario of the specification: 50 to start, raises from 1 to 100.\<close>

definition lamp_capped :: create_request where
  "lamp_capped =
     lamp_create 60 (Truthy (Fin 50)) (Truthy (Fin 1)) (Truthy (Fin 100))
       ''1234567890abcdef'' ''a1b2c3d4e5f60718''"

text \<open>The same auction with the maximum increment left empty in the form.\<close>

definition lamp_uncapped :: create_request where
  "lamp_uncapped =
     lamp_create 60 (Truthy (Fin 50)) (Truthy (Fin 1)) (Falsy NaN)
       ''1234567890abcdef'' ''a1b2c3d4e5f60718''"

text \<open>A bid on the lamp at a given time; the auction is open at \<open>2000000\<close> ms.\<close>

definition lamp_bid_at :: "int \<Rightarrow> jsnum \<Rightarrow> bid_request" where
  "lamp_bid_at t v =
     \<lparr>bq_slug = ''lamp'', bq_amount = v, bq_ip = ''127.0.0.1'',
      bq_now1 = t, bq_now2 = t, bq_now3 = t\<rparr>"

definition lamp_bid :: "jsnum \<Rightarrow> bid_request" where
  "lamp_bid v = lamp_bid_at 2000000 v"

text \<open>The auction \<open>lamp_capped\<close> creates.\<close>

definition lamp :: auction where
  "lamp =
     \<lparr>auction_id = ''a1b2c3d4e5f60718'', slug = ''lamp'', title = ''Lamp'',
      description = ''Brass desk lamp'', startsAt = 1000000, endsAt = 4600000,
      startingBid = Fin 50, minIncrement = Fin 1, maxIncrement = Some (Fin 100),
      currentBid = Fin 50, bids = []\<rparr>"

text \<open>An update of the lamp that submits only the given fields.\<close>

definition lamp_patch :: "jsnum field \<Rightarrow> jsnum field \<Rightarrow> update_request" where
  "lamp_patch sb mx =
     \<lparr>u_id = ''a1b2c3d4e5f60718'', u_title = Undefined, u_description = Undefined,
      u_startsAtLocal = Undefined, u_durationMinutes = Undefined,
      u_startingBid = sb, u_minIncrement = Undefined, u_maxIncrement = mx\<rparr>"

section \<open>Facts about numbers\<close>

lemma js_lt_irrefl: "\<not> js_lt a a"
  by (cases a) simp_all

lemma js_lt_NaN_right: "\<not> js_lt a NaN"
  by (cases a) simp_all

lemma js_lt_total: "a \<noteq> NaN \<Longrightarrow> b \<noteq> NaN \<Longrightarrow> js_lt a b \<or> a = b \<or> js_lt b a"
  by (cases a; cases b) auto

lemma js_le_refl: "a \<noteq> NaN \<Longrightarrow> js_le a a"
  by (simp add: js_le_def js_lt_irrefl)

lemma js_gt_not_NaN: "js_gt a b \<Longrightarrow> a \<noteq> NaN \<and> b \<noteq> NaN"
  by (cases a; cases b) (simp_all add: js_gt_def)


lemma parseFloat_or_not_NaN: "d \<noteq> NaN \<Longrightarrow> parseFloat_or f d \<noteq> NaN"
  by (cases f) (simp_all add: parseFloat_or_def truthy_def)

text \<open>The bid handler lets an increment through exactly when the clamp leaves it alone.\<close>

lemma js_seq_clamp:
  "js_seq inc (clampBidIncrement inc mn mx) =
     (inc \<noteq> NaN \<and> \<not> js_lt inc mn \<and>
      (case mx of None \<Rightarrow> True | Some m \<Rightarrow> \<not> (truthy m \<and> js_gt inc m)))"
  by (auto simp: js_seq_def clampBidIncrement_def js_gt_def js_lt_irrefl split: option.splits)

subsection \<open>Rounding to two decimals\<close>

lemma hundredths_mono: "a \<le> b \<Longrightarrow> hundredths a \<le> hundredths b"
  unfolding hundredths_def by (intro divide_right_mono floor_mono of_int_le_iff[THEN iffD2]) simp_all

lemma hundredths_nonneg: "0 \<le> a \<Longrightarrow> 0 \<le> hundredths a"
  unfolding hundredths_def by simp

lemma hundredths_bound:
  assumes "a < 10 ^ 21"
  shows "hundredths a \<le> 10 ^ 21"
proof -
  have "a * 100 + 1 / 2 < of_int (10 ^ 23 + 1)"
    using assms by simp
  then have "\<lfloor>a * 100 + 1 / 2\<rfloor> < 10 ^ 23 + 1"
    by (simp only: floor_less_iff)
  then have "\<lfloor>a * 100 + 1 / 2\<rfloor> \<le> 10 ^ 23"
    by simp
  then have "(of_int \<lfloor>a * 100 + 1 / 2\<rfloor> :: rat) \<le> of_int (10 ^ 23)"
    by (simp only: of_int_le_iff)
  then show ?thesis
    unfolding hundredths_def by simp
qed

lemma hundredths_fixed: "hundredths (of_int n / 100) = of_int n / 100"
proof -
  have "\<lfloor>(of_int n :: rat) + 1 / 2\<rfloor> = n"
    by (simp add: floor_unique)
  then show ?thesis
    unfolding hundredths_def by simp
qed

lemma round2_mono:
  assumes "x \<le> y"
  shows "round2 x \<le> round2 y"
proof -
  have m1: "hundredths x \<le> hundredths y"
    using assms by (rule hundredths_mono)
  have m2: "y < 0 \<Longrightarrow> hundredths \<bar>y\<bar> \<le> hundredths \<bar>x\<bar>"
    using assms by (intro hundredths_mono) simp
  have n1: "0 \<le> hundredths \<bar>x\<bar>" "0 \<le> hundredths \<bar>y\<bar>"
    by (simp_all add: hundredths_nonneg)
  have n2: "0 \<le> y \<Longrightarrow> 0 \<le> hundredths y"
    by (rule hundredths_nonneg)
  have b1: "x < 10 ^ 21 \<Longrightarrow> hundredths x \<le> 10 ^ 21"
    by (rule hundredths_bound)
  have b2: "\<bar>y\<bar> < 10 ^ 21 \<Longrightarrow> hundredths \<bar>y\<bar> \<le> 10 ^ 21"
    by (rule hundredths_bound)
  show ?thesis
    unfolding round2_def using assms m1 m2 n1 n2 b1 b2
    by (auto simp: abs_if split: if_splits)
qed

lemma round2_idem: "round2 (round2 x) = round2 x"
proof -
  obtain n :: int where n: "hundredths x = of_int n / 100"
    by (auto simp: hundredths_def)
  obtain k :: int where k: "hundredths \<bar>x\<bar> = of_int k / 100"
    by (auto simp: hundredths_def)
  have kn: "0 \<le> hundredths \<bar>x\<bar>"
    by (simp add: hundredths_nonneg)
  have nn: "0 \<le> x \<Longrightarrow> 0 \<le> hundredths x"
    by (rule hundredths_nonneg)
  have f1: "hundredths (hundredths x) = hundredths x"
    by (simp only: n hundredths_fixed)
  have f2: "hundredths (hundredths \<bar>x\<bar>) = hundredths \<bar>x\<bar>"
    by (simp only: k hundredths_fixed)
  have z: "hundredths 0 = 0"
    using hundredths_fixed [of 0] by simp
  show ?thesis
  proof (cases "10 ^ 21 \<le> \<bar>x\<bar>")
    case True
    then show ?thesis by (simp add: round2_def)
  next
    case small: False
    show ?thesis
    proof (cases "x < 0")
      case True
      then have v: "round2 x = - hundredths \<bar>x\<bar>"
        using small by (simp add: round2_def)
      show ?thesis
      proof (cases "hundredths \<bar>x\<bar> = 0")
        case True
        then show ?thesis using v z by (simp add: round2_def)
      next
        case False
        then have "- hundredths \<bar>x\<bar> < 0" using kn by simp
        then show ?thesis using v f2 by (simp add: round2_def)
      qed
    next
      case False
      then have v: "round2 x = hundredths x"
        using small by (simp add: round2_def)
      have "\<not> hundredths x < 0" using nn False by simp
      then show ?thesis using v f1 by (simp add: round2_def)
    qed
  qed
qed

lemma toFixed2_mono: "js_lt a b \<Longrightarrow> js_le (toFixed2 a) (toFixed2 b)"
  by (cases a; cases b) (auto simp: js_le_def not_less dest: round2_mono[OF less_imp_le])

lemma toFixed2_idem: "toFixed2 (toFixed2 a) = toFixed2 a"
  by (cases a) (simp_all add: round2_idem)

lemma toFixed2_NaN: "toFixed2 a = NaN \<longleftrightarrow> a = NaN"
  by (cases a) simp_all

section \<open>Facts about the store\<close>

lemma find_SomeD: "List.find P xs = Some a \<Longrightarrow> a \<in> set xs \<and> P a"
  by (induction xs) (auto split: if_splits)

lemma set_modify_first:
  "x \<in> set (modify_first P f xs) \<Longrightarrow> x \<in> set xs \<or> (\<exists>y. List.find P xs = Some y \<and> x = f y)"
  by (induction xs) (auto split: if_splits)

lemma find_modify_first:
  "List.find P xs = Some a \<Longrightarrow> P (f a) \<Longrightarrow> List.find P (modify_first P f xs) = Some (f a)"
  by (induction xs) (auto split: if_splits)

lemma length_modify_first: "length (modify_first P f xs) = length xs"
  by (induction xs) auto

lemma nth_modify_first:
  "i < length xs \<Longrightarrow>
     modify_first P f xs ! i = xs ! i \<or>
     (List.find P xs = Some (xs ! i) \<and> modify_first P f xs ! i = f (xs ! i))"
  by (induction xs arbitrary: i) (auto simp: nth_Cons split: nat.splits)

text \<open>What each handler can leave in the store.\<close>

lemma createAuction_new:
  assumes "a \<in> set (snd (createAuction s rq))"
  shows "a \<in> set s \<or>
         (bids a = [] \<and> currentBid a = startingBid a \<and>
          startingBid a = parseFloat_or (c_startingBid rq) (Fin 0) \<and>
          minIncrement a = parseFloat_or (c_minIncrement rq) (Fin 1) \<and>
          maxIncrement a =
            (if js_gt (parseFloat_or (c_maxIncrement rq) (Fin 0)) (Fin 0)
             then Some (parseFloat_or (c_maxIncrement rq) (Fin 0)) else None))"
  using assms by (auto simp: createAuction_def Let_def split: option.splits)

lemma placeBid_new:
  assumes "a' \<in> set (snd (placeBid s rq))"
  shows "a' \<in> set s \<or>
         (\<exists>a. List.find (\<lambda>a. slug a = bq_slug rq) s = Some a \<and> a' = accept_bid rq a \<and>
              bq_amount rq \<noteq> NaN \<and> \<not> js_le (bq_amount rq) (currentBid a))"
  using assms
  by (auto simp: placeBid_def Let_def isNaN_def split: option.splits if_splits
           dest!: set_modify_first)

lemma updateAuction_new:
  assumes "a' \<in> set (snd (updateAuction s rq))"
  shows "a' \<in> set s \<or> (\<exists>a \<in> set s. a' = patch_auction rq a)"
  using assms
  by (auto simp: updateAuction_def split: option.splits dest!: set_modify_first find_SomeD)

lemma deleteAuction_new: "a \<in> set (snd (deleteAuction s i)) \<Longrightarrow> a \<in> set s"
  by (simp add: deleteAuction_def)

text \<open>An invariant of every handler is an invariant of every run.\<close>

lemma step_invariant:
  assumes created: "\<And>s rq a. a \<in> set (snd (createAuction s rq)) \<Longrightarrow> a \<notin> set s \<Longrightarrow> I a"
    and accepted: "\<And>rq a. I a \<Longrightarrow> bq_amount rq \<noteq> NaN \<Longrightarrow> I (accept_bid rq a)"
    and patched: "\<And>rq a. I a \<Longrightarrow> I (patch_auction rq a)"
    and before: "\<forall>a \<in> set s. I a"
  shows "\<forall>a \<in> set (step s op). I a"
proof (cases op)
  case (Create rq)
  then show ?thesis using created before by auto
next
  case (Bid rq)
  then show ?thesis using accepted before
    by (auto dest!: placeBid_new find_SomeD)
next
  case (Update rq)
  then show ?thesis using patched before
    by (auto dest!: updateAuction_new)
next
  case (Delete i)
  then show ?thesis using before
    by (auto dest!: deleteAuction_new)
qed

lemma run_snoc: "run (ops @ [op]) = step (run ops) op"
  by (simp add: run_def)

lemma run_invariant:
  assumes created: "\<And>s rq a. a \<in> set (snd (createAuction s rq)) \<Longrightarrow> a \<notin> set s \<Longrightarrow> I a"
    and accepted: "\<And>rq a. I a \<Longrightarrow> bq_amount rq \<noteq> NaN \<Longrightarrow> I (accept_bid rq a)"
    and patched: "\<And>rq a. I a \<Longrightarrow> I (patch_auction rq a)"
  shows "\<forall>a \<in> set (run ops). I a"
proof (induction ops rule: rev_induct)
  case Nil
  show ?case by (simp add: run_def)
next
  case (snoc op ops)
  show ?case
    unfolding run_snoc using created accepted patched snoc.IH by (rule step_invariant)
qed

subsection \<open>The stages of the update handler\<close>

lemma patch_text_fields [simp]:
  "auction_id (patch_text rq a) = auction_id a"
  "startingBid (patch_text rq a) = startingBid a"
  "currentBid (patch_text rq a) = currentBid a"
  "minIncrement (patch_text rq a) = minIncrement a"
  "maxIncrement (patch_text rq a) = maxIncrement a"
  "bids (patch_text rq a) = bids a"
  by (simp_all add: patch_text_def Let_def split: field.splits)

lemma patch_window_fields:
  assumes "patch_window rq a = Some a'"
  shows "auction_id a' = auction_id a \<and> startingBid a' = startingBid a \<and>
         currentBid a' = currentBid a \<and> minIncrement a' = minIncrement a \<and>
         maxIncrement a' = maxIncrement a \<and> bids a' = bids a"
  using assms by (auto simp: patch_window_def split: if_splits option.splits)

lemma patch_startingBid_fields [simp]:
  "auction_id (patch_startingBid rq a) = auction_id a"
  "minIncrement (patch_startingBid rq a) = minIncrement a"
  "maxIncrement (patch_startingBid rq a) = maxIncrement a"
  "bids (patch_startingBid rq a) = bids a"
  by (simp_all add: patch_startingBid_def Let_def split: field.splits)

lemma patch_increments_fields [simp]:
  "auction_id (patch_increments rq a) = auction_id a"
  "startingBid (patch_increments rq a) = startingBid a"
  "currentBid (patch_increments rq a) = currentBid a"
  "bids (patch_increments rq a) = bids a"
  by (simp_all add: patch_increments_def Let_def split: field.splits)

text \<open>The starting bid and the current bid after the starting bid was patched.\<close>

lemma patch_startingBid_amounts:
  "(startingBid (patch_startingBid rq a), currentBid (patch_startingBid rq a)) =
     (case u_startingBid rq of
        Truthy sb \<Rightarrow>
          if sb = NaN then (startingBid a, currentBid a)
          else (sb, if bids a = [] then sb else currentBid a)
      | _ \<Rightarrow> (startingBid a, currentBid a))"
  by (simp add: patch_startingBid_def Let_def isNaN_def split: field.splits)

lemma patch_increments_min:
  "minIncrement (patch_increments rq a) = minIncrement a \<or>
   (minIncrement (patch_increments rq a) \<noteq> NaN \<and>
    js_gt (minIncrement (patch_increments rq a)) (Fin 0))"
  by (simp add: patch_increments_def Let_def isNaN_def split: field.splits)

lemma patch_increments_max:
  "maxIncrement (patch_increments rq a) =
     (case u_maxIncrement rq of
        Undefined \<Rightarrow> maxIncrement a
      | Falsy v \<Rightarrow> if js_gt v (Fin 0) then Some v else None
      | Truthy v \<Rightarrow> if js_gt v (Fin 0) then Some v else None)"
  by (cases "u_maxIncrement rq")
     (auto simp: patch_increments_def Let_def isNaN_def js_gt_def split: field.splits)

lemma patch_auction_None:
  "patch_window rq (patch_text rq a) = None \<Longrightarrow> patch_auction rq a = patch_text rq a"
  by (simp add: patch_auction_def)

lemma patch_auction_Some:
  "patch_window rq (patch_text rq a) = Some a2 \<Longrightarrow>
     patch_auction rq a = patch_increments rq (patch_startingBid rq a2)"
  by (simp add: patch_auction_def)

lemma patch_auction_id: "auction_id (patch_auction rq a) = auction_id a"
proof (cases "patch_window rq (patch_text rq a)")
  case None
  then show ?thesis by (simp add: patch_auction_None)
next
  case (Some a2)
  then show ?thesis
    using patch_window_fields [OF Some] by (simp add: patch_auction_Some [OF Some])
qed

lemma patch_auction_bids: "bids (patch_auction rq a) = bids a"
proof (cases "patch_window rq (patch_text rq a)")
  case None
  then show ?thesis by (simp add: patch_auction_None)
next
  case (Some a2)
  then show ?thesis
    using patch_window_fields [OF Some] by (simp add: patch_auction_Some [OF Some])
qed

lemma patch_auction_amounts:
  "(startingBid (patch_auction rq a), currentBid (patch_auction rq a)) =
     (if patch_window rq (patch_text rq a) = None then (startingBid a, currentBid a)
      else case u_startingBid rq of
             Truthy sb \<Rightarrow>
               if sb = NaN then (startingBid a, currentBid a)
               else (sb, if bids a = [] then sb else currentBid a)
           | _ \<Rightarrow> (startingBid a, currentBid a))"
proof (cases "patch_window rq (patch_text rq a)")
  case None
  then show ?thesis by (simp add: patch_auction_None)
next
  case (Some a2)
  have same: "startingBid a2 = startingBid a" "currentBid a2 = currentBid a" "bids a2 = bids a"
    using patch_window_fields [OF Some] by simp_all
  show ?thesis
    using patch_startingBid_amounts [of rq a2]
    by (simp add: Some patch_auction_Some [OF Some] same split: field.splits)
qed

lemma patch_auction_currentBid:
  "bids a \<noteq> [] \<Longrightarrow> currentBid (patch_auction rq a) = currentBid a"
  using patch_auction_amounts [of rq a] by (auto split: if_splits field.splits)


lemma patch_auction_min:
  "minIncrement (patch_auction rq a) = minIncrement a \<or>
   minIncrement (patch_auction rq a) \<noteq> NaN"
proof (cases "patch_window rq (patch_text rq a)")
  case None
  then show ?thesis by (simp add: patch_auction_None)
next
  case (Some a2)
  have "minIncrement (patch_startingBid rq a2) = minIncrement a"
    using patch_window_fields [OF Some] by simp
  then show ?thesis
    using patch_increments_min [of rq "patch_startingBid rq a2"]
    by (auto simp: patch_auction_Some [OF Some])
qed

lemma patch_auction_max:
  "maxIncrement (patch_auction rq a) =
     (if patch_window rq (patch_text rq a) = None then maxIncrement a
      else case u_maxIncrement rq of
             Undefined \<Rightarrow> maxIncrement a
           | Falsy v \<Rightarrow> if js_gt v (Fin 0) then Some v else None
           | Truthy v \<Rightarrow> if js_gt v (Fin 0) then Some v else None)"
proof (cases "patch_window rq (patch_text rq a)")
  case None
  then show ?thesis by (simp add: patch_auction_None)
next
  case (Some a2)
  have "maxIncrement (patch_startingBid rq a2) = maxIncrement a"
    using patch_window_fields [OF Some] by simp
  then show ?thesis
    using patch_increments_max [of rq "patch_startingBid rq a2"]
    by (simp add: Some patch_auction_Some [OF Some] split: field.splits)
qed

subsection \<open>The three invariants\<close>

lemma max_ok_created: "a \<in> set (snd (createAuction s rq)) \<Longrightarrow> a \<notin> set s \<Longrightarrow> max_ok a"
  by (drule createAuction_new) (auto simp: max_ok_def)

lemma max_ok_accepted: "max_ok a \<Longrightarrow> max_ok (accept_bid rq a)"
  by (simp add: max_ok_def accept_bid_def)

lemma max_ok_patched: "max_ok a \<Longrightarrow> max_ok (patch_auction rq a)"
  unfolding max_ok_def patch_auction_max by (simp split: field.splits)

lemma numbers_ok_created:
  "a \<in> set (snd (createAuction s rq)) \<Longrightarrow> a \<notin> set s \<Longrightarrow> numbers_ok a"
  by (drule createAuction_new) (auto simp: numbers_ok_def parseFloat_or_not_NaN)

lemma numbers_ok_accepted:
  "numbers_ok a \<Longrightarrow> bq_amount rq \<noteq> NaN \<Longrightarrow> numbers_ok (accept_bid rq a)"
  by (simp add: numbers_ok_def accept_bid_def toFixed2_idem toFixed2_NaN)

lemma numbers_ok_patched:
  assumes "numbers_ok a"
  shows "numbers_ok (patch_auction rq a)"
proof -
  have amounts: "startingBid (patch_auction rq a) \<noteq> NaN \<and> currentBid (patch_auction rq a) \<noteq> NaN \<and>
      (bids a \<noteq> [] \<longrightarrow> currentBid (patch_auction rq a) = currentBid a)"
    using assms patch_auction_amounts [of rq a]
    by (auto simp: numbers_ok_def split: if_splits field.splits)
  have "minIncrement (patch_auction rq a) \<noteq> NaN"
    using assms patch_auction_min [of rq a] by (auto simp: numbers_ok_def)
  then show ?thesis
    using assms amounts by (simp add: numbers_ok_def patch_auction_bids)
qed

lemma ledger_ok_created:
  "a \<in> set (snd (createAuction s rq)) \<Longrightarrow> a \<notin> set s \<Longrightarrow> ledger_ok a"
  by (drule createAuction_new) (auto simp: ledger_ok_def)

lemma ledger_ok_accepted: "ledger_ok a \<Longrightarrow> ledger_ok (accept_bid rq a)"
  by (simp add: ledger_ok_def accept_bid_def)

lemma ledger_ok_patched: "ledger_ok a \<Longrightarrow> ledger_ok (patch_auction rq a)"
  using patch_auction_amounts [of rq a]
  by (auto simp: ledger_ok_def patch_auction_bids split: if_splits field.splits)


lemma run_numbers_ok: "a \<in> set (run ops) \<Longrightarrow> numbers_ok a"
  using run_invariant [of numbers_ok ops] numbers_ok_created numbers_ok_accepted
    numbers_ok_patched by blast

lemma run_ledger_ok: "a \<in> set (run ops) \<Longrightarrow> ledger_ok a"
  using run_invariant [of ledger_ok ops] ledger_ok_created ledger_ok_accepted
    ledger_ok_patched by blast

subsection \<open>The bid handler on an open auction\<close>

lemma js_gt_sub: "js_gt a c \<Longrightarrow> js_sub a c \<noteq> NaN"
  by (cases a; cases c) (simp_all add: js_gt_def)

lemma placeBid_open:
  assumes "List.find (\<lambda>a. slug a = bq_slug rq) s = Some a"
    and "startsAt a \<le> bq_now1 rq" and "bq_now2 rq < endsAt a"
    and "js_gt (bq_amount rq) (currentBid a)"
  shows "placeBid s rq =
           (if js_seq (js_sub (bq_amount rq) (currentBid a))
                 (clampBidIncrement (js_sub (bq_amount rq) (currentBid a))
                    (minIncrement a) (maxIncrement a))
            then (BidOk (toFixed2 (bq_amount rq)),
                  modify_first (\<lambda>a. slug a = bq_slug rq) (accept_bid rq) s)
            else (BidRejected (IncrementOutOfBounds (minIncrement a) (maxIncrement a)), s))"
  using assms js_gt_not_NaN [of "bq_amount rq" "currentBid a"]
  by (simp add: placeBid_def hasStarted_def hasEnded_def Let_def isNaN_def js_le_def js_gt_def)



lemma placeBid_too_low:
  assumes "List.find (\<lambda>a. slug a = bq_slug rq) s = Some a"
    and "startsAt a \<le> bq_now1 rq" and "bq_now2 rq < endsAt a"
    and "bq_amount rq = NaN \<or> js_le (bq_amount rq) (currentBid a)"
  shows "placeBid s rq = (BidRejected TooLow, s)"
  using assms by (auto simp: placeBid_def hasStarted_def hasEnded_def Let_def isNaN_def)

lemma placeBid_store:
  "snd (placeBid s rq) = s \<or>
   (\<exists>a. List.find (\<lambda>a. slug a = bq_slug rq) s = Some a \<and> bq_amount rq \<noteq> NaN \<and>
        \<not> js_le (bq_amount rq) (currentBid a) \<and>
        snd (placeBid s rq) = modify_first (\<lambda>a. slug a = bq_slug rq) (accept_bid rq) s)"
  by (simp add: placeBid_def Let_def isNaN_def split: option.splits)

subsection \<open>The update handler on the auction it finds\<close>

lemma updateAuction_store:
  "snd (updateAuction s rq) = s \<or>
   snd (updateAuction s rq) = modify_first (\<lambda>a. auction_id a = u_id rq) (patch_auction rq) s"
  by (simp add: updateAuction_def split: option.splits)

lemma updateAuction_found:
  assumes "List.find (\<lambda>a. auction_id a = u_id rq) s = Some a"
  shows "List.find (\<lambda>a. auction_id a = u_id rq) (snd (updateAuction s rq)) =
           Some (patch_auction rq a) \<and>
         (fst (updateAuction s rq) = Redirect \<longrightarrow> patch_window rq (patch_text rq a) \<noteq> None)"
proof -
  have "auction_id (patch_auction rq a) = u_id rq"
    using find_SomeD [OF assms] by (simp add: patch_auction_id)
  then show ?thesis
    using assms find_modify_first [OF assms, of "patch_auction rq"]
    by (simp add: updateAuction_def)
qed

subsection \<open>The creation handler\<close>



section \<open>The claims\<close>

text \<open>
  C3. A bid on an auction whose start the clock has not reached is refused with
  \<open>NotStarted\<close>; a bid on an auction that has started and whose end the clock has reached
  is refused with \<open>Ended\<close>; in both cases the store, so the current bid and the bid list,
  is what it was. The handler tests the start first, with its first reading of the clock,
  and the end second, with its second reading.
\<close>

theorem C3_no_bid_outside_window:
  assumes "List.find (\<lambda>a. slug a = bq_slug rq) s = Some a"
    and "bq_now1 rq < startsAt a \<or> endsAt a \<le> bq_now2 rq"
  shows "placeBid s rq =
           (BidRejected (if bq_now1 rq < startsAt a then NotStarted else Ended), s)"
  using assms by (auto simp: placeBid_def hasStarted_def hasEnded_def Let_def)

theorem C3_no_bid_outside_window_witness:
  "List.find (\<lambda>a. slug a = bq_slug (lamp_bid_at 5000000 (Fin 60))) (run [Create lamp_capped])
     = Some lamp \<and>
   endsAt lamp \<le> bq_now2 (lamp_bid_at 5000000 (Fin 60)) \<and>
   placeBid (run [Create lamp_capped]) (lamp_bid_at 5000000 (Fin 60))
     = (BidRejected Ended, run [Create lamp_capped]) \<and>
   List.find (\<lambda>a. slug a = bq_slug (lamp_bid_at 500 (Fin 60))) (run [Create lamp_capped])
     = Some lamp \<and>
   bq_now1 (lamp_bid_at 500 (Fin 60)) < startsAt lamp \<and>
   placeBid (run [Create lamp_capped]) (lamp_bid_at 500 (Fin 60))
     = (BidRejected NotStarted, run [Create lamp_capped])"
proof -
  have f1: "List.find (\<lambda>a. slug a = bq_slug (lamp_bid_at 5000000 (Fin 60)))
              (run [Create lamp_capped]) = Some lamp"
    by code_simp
  have w1: "endsAt lamp \<le> bq_now2 (lamp_bid_at 5000000 (Fin 60))"
    by code_simp
  have n1: "\<not> bq_now1 (lamp_bid_at 5000000 (Fin 60)) < startsAt lamp"
    by code_simp
  have f2: "List.find (\<lambda>a. slug a = bq_slug (lamp_bid_at 500 (Fin 60)))
              (run [Create lamp_capped]) = Some lamp"
    by code_simp
  have w2: "bq_now1 (lamp_bid_at 500 (Fin 60)) < startsAt lamp"
    by code_simp
  show ?thesis
    using f1 w1 n1 f2 w2
      C3_no_bid_outside_window [OF f1 disjI2 [OF w1]]
      C3_no_bid_outside_window [OF f2 disjI1 [OF w2]]
    by simp
qed



text \<open>
  C10. Every operation keeps every stored \<open>maxIncrement\<close> absent or strictly positive.
  A creation stores no cap unless the submitted value parses to a number above zero; an
  update that submits the field and completes stores no cap unless the value parses to a
  number above zero; and on an open auction without a cap a bid above the current bid whose
  increment is not below \<open>minIncrement\<close> is accepted, however large it is.
\<close>

theorem C10_cap_absent_or_positive:
  "(list_all max_ok s \<longrightarrow> list_all max_ok (step s op)) \<and>
   (a \<in> set (snd (createAuction s crq)) \<and> a \<notin> set s \<and>
    (\<forall>v. c_maxIncrement crq = Truthy v \<longrightarrow> \<not> js_gt v (Fin 0)) \<longrightarrow> maxIncrement a = None) \<and>
   (List.find (\<lambda>a. auction_id a = u_id urq) s = Some b \<and>
    fst (updateAuction s urq) = Redirect \<and>
    (u_maxIncrement urq = Falsy w \<or> u_maxIncrement urq = Truthy w) \<and> \<not> js_gt w (Fin 0) \<longrightarrow>
      (\<exists>b'. List.find (\<lambda>a. auction_id a = u_id urq) (snd (updateAuction s urq)) = Some b' \<and>
            maxIncrement b' = None)) \<and>
   (List.find (\<lambda>a. slug a = bq_slug brq) s = Some c \<and> maxIncrement c = None \<and>
    startsAt c \<le> bq_now1 brq \<and> bq_now2 brq < endsAt c \<and>
    js_gt (bq_amount brq) (currentBid c) \<and>
    \<not> js_lt (js_sub (bq_amount brq) (currentBid c)) (minIncrement c) \<longrightarrow>
      fst (placeBid s brq) = BidOk (toFixed2 (bq_amount brq)))"
proof (intro conjI impI)
  assume "list_all max_ok s"
  then have "\<forall>a \<in> set s. max_ok a"
    by (simp add: list_all_iff)
  then have "\<forall>a \<in> set (step s op). max_ok a"
    using max_ok_created max_ok_accepted max_ok_patched
    by (intro step_invariant [of max_ok]) blast+
  then show "list_all max_ok (step s op)"
    by (simp add: list_all_iff)
next
  assume new: "a \<in> set (snd (createAuction s crq)) \<and> a \<notin> set s \<and>
    (\<forall>v. c_maxIncrement crq = Truthy v \<longrightarrow> \<not> js_gt v (Fin 0))"
  then have "\<not> js_gt (parseFloat_or (c_maxIncrement crq) (Fin 0)) (Fin 0)"
    by (cases "c_maxIncrement crq") (simp_all add: parseFloat_or_def js_gt_def)
  then show "maxIncrement a = None"
    using new createAuction_new [of a s crq] by simp
next
  assume upd: "List.find (\<lambda>a. auction_id a = u_id urq) s = Some b \<and>
    fst (updateAuction s urq) = Redirect \<and>
    (u_maxIncrement urq = Falsy w \<or> u_maxIncrement urq = Truthy w) \<and> \<not> js_gt w (Fin 0)"
  then have found: "List.find (\<lambda>a. auction_id a = u_id urq) (snd (updateAuction s urq))
                      = Some (patch_auction urq b)"
    and completes: "patch_window urq (patch_text urq b) \<noteq> None"
    using updateAuction_found [of urq s b] by simp_all
  have "maxIncrement (patch_auction urq b) = None"
    using upd completes by (auto simp: patch_auction_max)
  then show "\<exists>b'. List.find (\<lambda>a. auction_id a = u_id urq) (snd (updateAuction s urq)) = Some b' \<and>
            maxIncrement b' = None"
    using found by simp
next
  assume bid: "List.find (\<lambda>a. slug a = bq_slug brq) s = Some c \<and> maxIncrement c = None \<and>
    startsAt c \<le> bq_now1 brq \<and> bq_now2 brq < endsAt c \<and>
    js_gt (bq_amount brq) (currentBid c) \<and>
    \<not> js_lt (js_sub (bq_amount brq) (currentBid c)) (minIncrement c)"
  then have "js_sub (bq_amount brq) (currentBid c) \<noteq> NaN"
    by (simp add: js_gt_sub)
  then show "fst (placeBid s brq) = BidOk (toFixed2 (bq_amount brq))"
    using bid placeBid_open [of brq s c] by (simp add: js_seq_clamp)
qed

theorem C10_cap_absent_or_positive_witness:
  "list_all max_ok (step [lamp] (Update (lamp_patch Undefined (Truthy (Fin (- 5)))))) \<and>
   maxIncrement (hd (snd (createAuction [] lamp_uncapped))) = None \<and>
   (\<exists>b'. List.find (\<lambda>a. auction_id a = ''a1b2c3d4e5f60718'')
           (snd (updateAuction [lamp] (lamp_patch Undefined (Truthy (Fin (- 5)))))) = Some b' \<and>
         maxIncrement b' = None) \<and>
   fst (placeBid (snd (createAuction [] lamp_uncapped)) (lamp_bid (Fin 1000000)))
     = BidOk (Fin 1000000)"
proof -
  let ?u = "lamp_patch Undefined (Truthy (Fin (- 5)))"
  let ?s = "snd (createAuction [] lamp_uncapped)"
  let ?b = "lamp_bid (Fin 1000000)"
  note upd = C10_cap_absent_or_positive [of "[lamp]" "Update ?u" _ _ ?u lamp "Fin (- 5)"]
  note new = C10_cap_absent_or_positive [of "[]" _ "hd ?s" lamp_uncapped]
  note open_bid = C10_cap_absent_or_positive [of ?s _ _ _ _ _ _ ?b "hd ?s"]
  have p1: "list_all max_ok [lamp]"
    by code_simp
  have p2: "hd ?s \<in> set ?s \<and> hd ?s \<notin> set [] \<and>
            (\<forall>v. c_maxIncrement lamp_uncapped = Truthy v \<longrightarrow> \<not> js_gt v (Fin 0))"
    by (simp add: lamp_uncapped_def lamp_create_def createAuction_def Let_def
          utcISOFromLocal_def newDate_def parseInt_or60_def)
  have p3: "List.find (\<lambda>a. auction_id a = u_id ?u) [lamp] = Some lamp \<and>
            fst (updateAuction [lamp] ?u) = Redirect \<and>
            (u_maxIncrement ?u = Falsy (Fin (- 5)) \<or> u_maxIncrement ?u = Truthy (Fin (- 5))) \<and>
            \<not> js_gt (Fin (- 5)) (Fin 0)"
    by code_simp
  have p4: "List.find (\<lambda>a. slug a = bq_slug ?b) ?s = Some (hd ?s) \<and>
            maxIncrement (hd ?s) = None \<and>
            startsAt (hd ?s) \<le> bq_now1 ?b \<and> bq_now2 ?b < endsAt (hd ?s) \<and>
            js_gt (bq_amount ?b) (currentBid (hd ?s)) \<and>
            \<not> js_lt (js_sub (bq_amount ?b) (currentBid (hd ?s))) (minIncrement (hd ?s))"
    by code_simp
  have r: "toFixed2 (bq_amount ?b) = Fin 1000000"
    by code_simp
  have q1: "list_all max_ok (step [lamp] (Update ?u))"
    using upd p1 by blast
  have q2: "maxIncrement (hd ?s) = None"
    using new p2 by blast
  have q3: "\<exists>b'. List.find (\<lambda>a. auction_id a = u_id ?u) (snd (updateAuction [lamp] ?u)) = Some b' \<and>
            maxIncrement b' = None"
    using upd p3 by blast
  have u: "u_id ?u = ''a1b2c3d4e5f60718''"
    by (simp add: lamp_patch_def)
  have q4: "fst (placeBid ?s ?b) = BidOk (toFixed2 (bq_amount ?b))"
    using open_bid p4 by blast
  show ?thesis
    using q1 q2 q3 q4 by (simp only: u r)
qed

text \<open>
  C5, as amended. After every sequence of operations, an auction without bids has its
  current bid equal to its starting bid, and an auction with bids has its current bid equal
  to the amount of its last recorded bid. (The converse of the first half fails: see the
  counterexample.)
\<close>

theorem C5_current_bid_follows_bids:
  assumes "a \<in> set (run ops)"
  shows "(bids a = [] \<longrightarrow> currentBid a = startingBid a) \<and>
         (bids a \<noteq> [] \<longrightarrow> currentBid a = amount (last (bids a)))"
  using run_ledger_ok [OF assms] by (simp add: ledger_ok_def)

theorem C5_current_bid_follows_bids_witness:
  "hd (run [Create lamp_capped]) \<in> set (run [Create lamp_capped]) \<and>
   bids (hd (run [Create lamp_capped])) = [] \<and>
   currentBid (hd (run [Create lamp_capped])) = startingBid (hd (run [Create lamp_capped])) \<and>
   hd (run [Create lamp_capped, Bid (lamp_bid (Fin 60))])
     \<in> set (run [Create lamp_capped, Bid (lamp_bid (Fin 60))]) \<and>
   bids (hd (run [Create lamp_capped, Bid (lamp_bid (Fin 60))])) \<noteq> [] \<and>
   currentBid (hd (run [Create lamp_capped, Bid (lamp_bid (Fin 60))]))
     = amount (last (bids (hd (run [Create lamp_capped, Bid (lamp_bid (Fin 60))]))))"
proof -
  have m1: "hd (run [Create lamp_capped]) \<in> set (run [Create lamp_capped])"
    by code_simp
  have e1: "bids (hd (run [Create lamp_capped])) = []"
    by code_simp
  have m2: "hd (run [Create lamp_capped, Bid (lamp_bid (Fin 60))])
              \<in> set (run [Create lamp_capped, Bid (lamp_bid (Fin 60))])"
    by code_simp
  have e2: "bids (hd (run [Create lamp_capped, Bid (lamp_bid (Fin 60))])) \<noteq> []"
    by code_simp
  show ?thesis
    using m1 e1 m2 e2 C5_current_bid_follows_bids [OF m1] C5_current_bid_follows_bids [OF m2]
    by simp
qed

text \<open>
  C5 as stated fails: after a bid of 60 on the lamp the administrator sets the starting
  bid to 60, and the current bid equals the starting bid although a bid is recorded.
\<close>

theorem C5_counterexample:
  "bids (hd (run [Create lamp_capped, Bid (lamp_bid (Fin 60)),
                  Update (lamp_patch (Truthy (Fin 60)) Undefined)])) \<noteq> [] \<and>
   currentBid (hd (run [Create lamp_capped, Bid (lamp_bid (Fin 60)),
                        Update (lamp_patch (Truthy (Fin 60)) Undefined)]))
     = startingBid (hd (run [Create lamp_capped, Bid (lamp_bid (Fin 60)),
                             Update (lamp_patch (Truthy (Fin 60)) Undefined)]))"
  by code_simp




text \<open>
  C9, as amended. After every sequence of operations, neither handler changes the number
  of auctions; a bid does not lower the current bid of an auction that has a recorded bid,
  or whose current bid is already rounded to two decimals; and an update leaves the current
  bid of an auction that has a recorded bid as it is. (An update of an auction without bids
  sets the current bid to the submitted starting bid, which may be lower: see the
  counterexample.)
\<close>

theorem C9_current_bid_not_lowered:
  assumes "i < length (run ops)"
  shows "length (snd (placeBid (run ops) rq)) = length (run ops) \<and>
         length (snd (updateAuction (run ops) urq)) = length (run ops) \<and>
         (bids (run ops ! i) \<noteq> [] \<or>
          toFixed2 (currentBid (run ops ! i)) = currentBid (run ops ! i) \<longrightarrow>
            js_le (currentBid (run ops ! i)) (currentBid (snd (placeBid (run ops) rq) ! i))) \<and>
         (bids (run ops ! i) \<noteq> [] \<longrightarrow>
            currentBid (snd (updateAuction (run ops) urq) ! i) = currentBid (run ops ! i))"
proof -
  let ?s = "run ops"
  let ?a = "?s ! i"
  have "?a \<in> set ?s"
    using assms by simp
  then have ok: "numbers_ok ?a"
    by (rule run_numbers_ok)
  then have cur: "currentBid ?a \<noteq> NaN"
    by (simp add: numbers_ok_def)
  have len1: "length (snd (placeBid ?s rq)) = length ?s"
    using placeBid_store [of ?s rq] by (auto simp: length_modify_first)
  have len2: "length (snd (updateAuction ?s urq)) = length ?s"
    using updateAuction_store [of ?s urq] by (auto simp: length_modify_first)
  have bid: "js_le (currentBid ?a) (currentBid (snd (placeBid ?s rq) ! i))"
    if rounded: "bids ?a \<noteq> [] \<or> toFixed2 (currentBid ?a) = currentBid ?a"
  proof -
    have fixed: "toFixed2 (currentBid ?a) = currentBid ?a"
      using rounded ok by (auto simp: numbers_ok_def)
    consider (same) "snd (placeBid ?s rq) ! i = ?a"
      | (raised) "bq_amount rq \<noteq> NaN" "\<not> js_le (bq_amount rq) (currentBid ?a)"
          "snd (placeBid ?s rq) ! i = accept_bid rq ?a"
      using placeBid_store [of ?s rq]
        nth_modify_first [OF assms, of "\<lambda>a. slug a = bq_slug rq" "accept_bid rq"]
      by auto
    then show ?thesis
    proof cases
      case same
      then show ?thesis using cur by (simp add: js_le_refl)
    next
      case raised
      then have "js_lt (currentBid ?a) (bq_amount rq)"
        using cur by (simp add: js_le_def)
      then have "js_le (toFixed2 (currentBid ?a)) (toFixed2 (bq_amount rq))"
        by (rule toFixed2_mono)
      then show ?thesis
        using raised(3) fixed by (simp add: accept_bid_def)
    qed
  qed
  have upd: "currentBid (snd (updateAuction ?s urq) ! i) = currentBid ?a"
    if "bids ?a \<noteq> []"
    using that updateAuction_store [of ?s urq]
      nth_modify_first [OF assms, of "\<lambda>a. auction_id a = u_id urq" "patch_auction urq"]
    by (auto simp: patch_auction_currentBid)
  show ?thesis
    using len1 len2 bid upd by blast
qed

theorem C9_current_bid_not_lowered_witness:
  "0 < length (run [Create lamp_capped, Bid (lamp_bid (Fin 60))]) \<and>
   bids (run [Create lamp_capped, Bid (lamp_bid (Fin 60))] ! 0) \<noteq> [] \<and>
   js_le (currentBid (run [Create lamp_capped, Bid (lamp_bid (Fin 60))] ! 0))
     (currentBid (snd (placeBid (run [Create lamp_capped, Bid (lamp_bid (Fin 60))])
                         (lamp_bid (Fin 75))) ! 0)) \<and>
   currentBid (snd (updateAuction (run [Create lamp_capped, Bid (lamp_bid (Fin 60))])
                      (lamp_patch (Truthy (Fin 10)) Undefined)) ! 0)
     = currentBid (run [Create lamp_capped, Bid (lamp_bid (Fin 60))] ! 0)"
proof -
  have l: "0 < length (run [Create lamp_capped, Bid (lamp_bid (Fin 60))])"
    by code_simp
  have b: "bids (run [Create lamp_capped, Bid (lamp_bid (Fin 60))] ! 0) \<noteq> []"
    by code_simp
  show ?thesis
    using l b
      C9_current_bid_not_lowered
        [OF l, of "lamp_bid (Fin 75)" "lamp_patch (Truthy (Fin 10)) Undefined"]
    by blast
qed

text \<open>
  C9 as stated fails: the lamp has no bid and a current bid of 50; the administrator sets
  the starting bid to 10, and the current bid is 10.
\<close>

theorem C9_counterexample:
  "currentBid (hd (run [Create lamp_capped])) = Fin 50 \<and>
   currentBid (hd (snd (updateAuction (run [Create lamp_capped])
                          (lamp_patch (Truthy (Fin 10)) Undefined)))) = Fin 10 \<and>
   js_lt (Fin 10) (Fin 50)"
  by code_simp







text \<open>
  C7. The handler refuses a bid that is NaN or not above the current bid with \<open>TooLow\<close>
  and leaves the store alone (\<open>placeBid_too_low\<close>), but it tests \<^verbatim>\<open>isNaN\<close> only and
  lets positive infinity through: on the open lamp without a cap, a bid of \<^verbatim>\<open>Infinity\<close> is
  accepted, recorded, and becomes the current bid.
\<close>

theorem C7_infinite_bid_accepted:
  "fst (placeBid (run [Create lamp_uncapped]) (lamp_bid PosInf)) = BidOk PosInf \<and>
   currentBid (hd (snd (placeBid (run [Create lamp_uncapped]) (lamp_bid PosInf)))) = PosInf \<and>
   map amount (bids (hd (snd (placeBid (run [Create lamp_uncapped]) (lamp_bid PosInf)))))
     = [PosInf]"
  by code_simp

text \<open>
  C8. The creation handler appends four random digits to a slug that is taken and does
  not look again: three requests for a lamp whose second and third draw the same four
  digits leave two auctions with the slug \<open>lamp-1234\<close>.
\<close>

theorem C8_slug_taken_twice:
  "map slug (run [Create lamp_capped,
                  Create (lamp_create 60 (Truthy (Fin 5)) (Falsy NaN) (Falsy NaN)
                            ''1234aaaaaaaaaaaa'' ''bbbbbbbbbbbbbbbb''),
                  Create (lamp_create 60 (Truthy (Fin 5)) (Falsy NaN) (Falsy NaN)
                            ''1234cccccccccccc'' ''dddddddddddddddd'')])
     = [''lamp'', ''lamp-1234'', ''lamp-1234''] \<and>
   \<not> distinct (map slug (run [Create lamp_capped,
                  Create (lamp_create 60 (Truthy (Fin 5)) (Falsy NaN) (Falsy NaN)
                            ''1234aaaaaaaaaaaa'' ''bbbbbbbbbbbbbbbb''),
                  Create (lamp_create 60 (Truthy (Fin 5)) (Falsy NaN) (Falsy NaN)
                            ''1234cccccccccccc'' ''dddddddddddddddd'')]))"
  by code_simp

end
